theory Spec2Isabelle
  imports Complex_Main
begin

section \<open>JavaScript numbers\<close>

text \<open>
  Every numeric field of the program is a JavaScript \<open>number\<close>. The model keeps the
  outcomes that matter for the comparison metrics: a finite value, the two infinities and
  NaN. A division never throws in JavaScript: \<open>0 / 0\<close> is NaN and \<open>x / 0\<close> is an
  infinity. Finite values are taken as exact reals (binary64 rounding is left out), and
  the negative zero is identified with zero.
\<close>

datatype number = Num real | PosInfinity | NegInfinity | NaN

definition signed_infinity :: "bool \<Rightarrow> number" where
  "signed_infinity positive = (if positive then PosInfinity else NegInfinity)"

fun js_neg :: "number \<Rightarrow> number" where
  "js_neg (Num a) = Num (- a)"
| "js_neg PosInfinity = NegInfinity"
| "js_neg NegInfinity = PosInfinity"
| "js_neg NaN = NaN"

fun js_add :: "number \<Rightarrow> number \<Rightarrow> number" where
  "js_add (Num a) (Num b) = Num (a + b)"
| "js_add NaN _ = NaN"
| "js_add _ NaN = NaN"
| "js_add PosInfinity NegInfinity = NaN"
| "js_add NegInfinity PosInfinity = NaN"
| "js_add PosInfinity _ = PosInfinity"
| "js_add _ PosInfinity = PosInfinity"
| "js_add NegInfinity _ = NegInfinity"
| "js_add _ NegInfinity = NegInfinity"

definition js_sub :: "number \<Rightarrow> number \<Rightarrow> number" where
  "js_sub a b = js_add a (js_neg b)"

fun js_mul :: "number \<Rightarrow> number \<Rightarrow> number" where
  "js_mul (Num a) (Num b) = Num (a * b)"
| "js_mul NaN _ = NaN"
| "js_mul _ NaN = NaN"
| "js_mul (Num a) PosInfinity = (if a = 0 then NaN else signed_infinity (0 < a))"
| "js_mul (Num a) NegInfinity = (if a = 0 then NaN else signed_infinity (a < 0))"
| "js_mul PosInfinity (Num b) = (if b = 0 then NaN else signed_infinity (0 < b))"
| "js_mul NegInfinity (Num b) = (if b = 0 then NaN else signed_infinity (b < 0))"
| "js_mul PosInfinity PosInfinity = PosInfinity"
| "js_mul PosInfinity NegInfinity = NegInfinity"
| "js_mul NegInfinity PosInfinity = NegInfinity"
| "js_mul NegInfinity NegInfinity = PosInfinity"

fun js_div :: "number \<Rightarrow> number \<Rightarrow> number" where
  "js_div (Num a) (Num b) =
     (if b \<noteq> 0 then Num (a / b)
      else if a = 0 then NaN
      else signed_infinity (0 < a))"
| "js_div NaN _ = NaN"
| "js_div _ NaN = NaN"
| "js_div (Num a) PosInfinity = Num 0"
| "js_div (Num a) NegInfinity = Num 0"
| "js_div PosInfinity (Num b) = signed_infinity (0 \<le> b)"
| "js_div NegInfinity (Num b) = signed_infinity (b < 0)"
| "js_div PosInfinity PosInfinity = NaN"
| "js_div PosInfinity NegInfinity = NaN"
| "js_div NegInfinity PosInfinity = NaN"
| "js_div NegInfinity NegInfinity = NaN"

text \<open>\<open>Math.abs\<close>.\<close>

fun js_abs :: "number \<Rightarrow> number" where
  "js_abs (Num a) = Num \<bar>a\<bar>"
| "js_abs PosInfinity = PosInfinity"
| "js_abs NegInfinity = PosInfinity"
| "js_abs NaN = NaN"

text \<open>The comparisons \<open><\<close>, \<open><=\<close>, \<open>>\<close> and \<open>===\<close>; each is false when an operand is NaN.\<close>

fun js_lt :: "number \<Rightarrow> number \<Rightarrow> bool" where
  "js_lt (Num a) (Num b) = (a < b)"
| "js_lt NaN _ = False"
| "js_lt _ NaN = False"
| "js_lt _ NegInfinity = False"
| "js_lt PosInfinity _ = False"
| "js_lt NegInfinity _ = True"
| "js_lt _ PosInfinity = True"

fun js_strict_eq :: "number \<Rightarrow> number \<Rightarrow> bool" where
  "js_strict_eq NaN _ = False"
| "js_strict_eq _ NaN = False"
| "js_strict_eq a b = (a = b)"

definition js_le :: "number \<Rightarrow> number \<Rightarrow> bool" where
  "js_le a b = (js_lt a b \<or> js_strict_eq a b)"

definition js_gt :: "number \<Rightarrow> number \<Rightarrow> bool" where
  "js_gt a b = js_lt b a"

definition js_ge :: "number \<Rightarrow> number \<Rightarrow> bool" where
  "js_ge a b = (js_lt b a \<or> js_strict_eq a b)"

text \<open>\<open>Math.min\<close> of two numbers: NaN when an argument is NaN.\<close>

definition js_min :: "number \<Rightarrow> number \<Rightarrow> number" where
  "js_min a b = (if a = NaN \<or> b = NaN then NaN else if js_lt a b then a else b)"

text \<open>The length of an array, and any other count, as a number.\<close>

definition of_count :: "nat \<Rightarrow> number" where
  "of_count n = Num (real n)"

section \<open>The data model of \<open>types.ts\<close>\<close>

text \<open>
  Each interface is a record with the interface's field names; a field name that several
  interfaces share is written with its record's name in front. An optional field
  (\<open>field?: T\<close>) is an \<open>option\<close>.
\<close>

record DateMatches =
  statement_gt_matches :: number
  treaty_gt_matches :: number
  statement_treaty_matches :: number

record DateComparison =
  statement_dates :: "string list"
  treaty_slip_dates :: "string list"
  ground_truth_dates :: "string list"
  matches :: DateMatches
  discrepancies :: "string list"
  match_percentage :: number

record CashLossLimit =
  treaty_slip_amount :: number
  statement_surplus_amount :: number
  within_limits :: bool
  variance_percentage :: number
  risk_flag :: bool

record Commissions =
  treaty_slip_commission :: number
  statement_commission :: number
  match :: bool
  variance_amount :: number
  variance_percentage :: number

record ClaimAmounts =
  total_claims_statement :: number
  total_claims_ground_truth :: number
  variance :: number
  variance_percentage :: number
  suspicious_patterns :: "string list"

record FinancialComparison =
  cash_loss_limit :: CashLossLimit
  commissions :: Commissions
  claim_amounts :: ClaimAmounts

record TotalClaimsComparison =
  statement_claims :: number
  ground_truth_claims :: number
  match :: bool
  variance :: number
  variance_percentage :: number
  missing_claims :: "string list"
  extra_claims :: "string list"

datatype ReliabilityRating = HIGH | MEDIUM | LOW

record DataIntegrity =
  completeness_score :: number
  accuracy_score :: number
  consistency_score :: number
  reliability_rating :: ReliabilityRating

record GroundTruthComparison =
  total_claims_comparison :: TotalClaimsComparison
  data_integrity :: DataIntegrity

record ReliabilityIndicators =
  data_consistency :: number
  cross_reference_accuracy :: number
  financial_alignment :: number
  temporal_consistency :: number

record VerificationStatus =
  dates_verified :: bool
  amounts_verified :: bool
  commissions_verified :: bool
  claims_count_verified :: bool

record ValidationMetrics =
  trust_score :: number
  reliability_indicators :: ReliabilityIndicators
  verification_status :: VerificationStatus

record DocumentGroundTruth =
  matches_found :: number
  avg_similarity :: number
  max_similarity :: number

record DocumentCompliance =
  compliance_score :: number
  risk_level :: string
  risk_indicators :: "string list"
  ground_truth_analysis :: DocumentGroundTruth

record GroundTruthAnalysis =
  matches_count :: number
  avg_similarity :: number
  max_similarity :: number

text \<open>
  \<open>ComplianceAnalysis\<close>. The interface requires the first three fields,
  \<open>statement_compliance\<close> and \<open>ground_truth_analysis\<close>; the helper
  \<open>enhanceReportWithComparison\<close> takes its report as \<open>any\<close> and can build an
  analysis object that has the four comparison keys only, so every key of the object is
  modelled as optional. A key that is absent and a key that holds \<open>undefined\<close> are both
  \<open>None\<close>.
\<close>

record ComplianceAnalysis =
  overall_compliance_score :: "number option"
  overall_risk_level :: "string option"
  pairing_confidence :: "number option"
  statement_compliance :: "DocumentCompliance option"
  treaty_slip_compliance :: "DocumentCompliance option"
  ground_truth_analysis :: "GroundTruthAnalysis option"
  date_comparison :: "DateComparison option"
  financial_comparison :: "FinancialComparison option"
  ground_truth_comparison :: "GroundTruthComparison option"
  validation_metrics :: "ValidationMetrics option"

section \<open>The mock generator\<close>

text \<open>
  \<open>xs.filter(d => ys.includes(d)).length\<close>: the number of entries of \<open>xs\<close> that
  occur in \<open>ys\<close>, compared as strings.
\<close>

definition js_includes :: "string list \<Rightarrow> string \<Rightarrow> bool" where
  "js_includes ys d = (d \<in> set ys)"

definition countMatches :: "string list \<Rightarrow> string list \<Rightarrow> nat" where
  "countMatches xs ys = length (filter (\<lambda>d. js_includes ys d) xs)"

text \<open>
  \<open>Math.max(statementDates.length, treatyDates.length, groundTruthDates.length)\<close>
  (line 31).
\<close>

definition totalPossibleMatches :: "string list \<Rightarrow> string list \<Rightarrow> string list \<Rightarrow> nat" where
  "totalPossibleMatches statementDates treatyDates groundTruthDates =
     max (length statementDates) (max (length treatyDates) (length groundTruthDates))"

text \<open>
  The expression of line 32, with the three date arrays as parameters:
  \<open>((statementGtMatches + treatyGtMatches + statementTreatyMatches) /
     (totalPossibleMatches * 3)) * 100\<close>.
\<close>

definition matchPercentageOf :: "string list \<Rightarrow> string list \<Rightarrow> string list \<Rightarrow> number" where
  "matchPercentageOf statementDates treatyDates groundTruthDates =
     (let statementGtMatches = countMatches statementDates groundTruthDates;
          treatyGtMatches = countMatches treatyDates groundTruthDates;
          statementTreatyMatches = countMatches statementDates treatyDates
      in js_mul
           (js_div (of_count (statementGtMatches + treatyGtMatches + statementTreatyMatches))
                   (of_count (totalPossibleMatches statementDates treatyDates groundTruthDates * 3)))
           (Num 100))"

text \<open>
  \<open>generateMockComparisonData(reportId, classification)\<close>. The local constants keep
  their names; \<open>baseDate\<close> is never read and is left out.
\<close>

definition generateMockComparisonData :: "string \<Rightarrow> string \<Rightarrow> ComplianceAnalysis" where
  "generateMockComparisonData reportId classification =
     (let isHighRisk = (classification = ''POTENTIALLY FRAUDULENT'');
          isMediumRisk = (classification = ''INSUFFICIENT EVIDENCE'');
          statementDates = [''2024-09-15'', ''2024-09-16'', ''2024-09-17''];
          treatyDates = [''2024-09-15'', ''2024-09-16'',
                         if isHighRisk then ''2024-09-20'' else ''2024-09-17''];
          groundTruthDates = [''2024-09-15'', ''2024-09-16'', ''2024-09-17''];
          statementGtMatches = countMatches statementDates groundTruthDates;
          treatyGtMatches = countMatches treatyDates groundTruthDates;
          statementTreatyMatches = countMatches statementDates treatyDates;
          matchPercentage = matchPercentageOf statementDates treatyDates groundTruthDates;
          date_comparison = \<lparr>
            statement_dates = statementDates,
            treaty_slip_dates = treatyDates,
            ground_truth_dates = groundTruthDates,
            matches = \<lparr>
              statement_gt_matches = of_count statementGtMatches,
              treaty_gt_matches = of_count treatyGtMatches,
              statement_treaty_matches = of_count statementTreatyMatches \<rparr>,
            discrepancies = (if isHighRisk then
              [''Treaty slip date 2024-09-20 not found in ground truth data'',
               ''Statement processing date differs from treaty slip by 3 days'']
              else []),
            match_percentage = matchPercentage \<rparr>;
          treatySlipAmount = (if isHighRisk then Num 2800000 else Num 1200000);
          statementSurplus = Num 2500000;
          withinLimits = js_le treatySlipAmount statementSurplus;
          variance = js_mul (js_div (js_sub treatySlipAmount statementSurplus) statementSurplus)
                            (Num 100);
          treatyCommission = (if isHighRisk then Num 125000 else Num 120000);
          statementCommission = Num 120000;
          commissionMatch = js_lt (js_abs (js_sub treatyCommission statementCommission)) (Num 5000);
          commissionVariance = js_sub treatyCommission statementCommission;
          commissionVariancePercentage =
            js_mul (js_div commissionVariance statementCommission) (Num 100);
          financial_comparison = \<lparr>
            cash_loss_limit = \<lparr>
              treaty_slip_amount = treatySlipAmount,
              statement_surplus_amount = statementSurplus,
              within_limits = withinLimits,
              CashLossLimit.variance_percentage = js_abs variance,
              risk_flag = \<not> withinLimits \<rparr>,
            commissions = \<lparr>
              treaty_slip_commission = treatyCommission,
              statement_commission = statementCommission,
              Commissions.match = commissionMatch,
              variance_amount = commissionVariance,
              Commissions.variance_percentage = js_abs commissionVariancePercentage \<rparr>,
            claim_amounts = \<lparr>
              total_claims_statement = (if isHighRisk then Num 4200000 else Num 3800000),
              total_claims_ground_truth = Num 3800000,
              ClaimAmounts.variance = (if isHighRisk then Num 400000 else Num 0),
              ClaimAmounts.variance_percentage = (if isHighRisk then Num 10.5 else Num 0),
              suspicious_patterns = (if isHighRisk then
                [''Multiple claims submitted within 48 hours'',
                 ''Claim amounts follow suspicious round number pattern'',
                 ''Similar incident descriptions across multiple claims'']
                else []) \<rparr> \<rparr>;
          statementClaims = (if isHighRisk then Num 15 else Num 12);
          groundTruthClaims = Num 12;
          claimsMatch = js_strict_eq statementClaims groundTruthClaims;
          claimsVariance = js_sub statementClaims groundTruthClaims;
          claimsVariancePercentage = js_mul (js_div claimsVariance groundTruthClaims) (Num 100);
          ground_truth_comparison = \<lparr>
            total_claims_comparison = \<lparr>
              statement_claims = statementClaims,
              ground_truth_claims = groundTruthClaims,
              TotalClaimsComparison.match = claimsMatch,
              TotalClaimsComparison.variance = claimsVariance,
              TotalClaimsComparison.variance_percentage = claimsVariancePercentage,
              missing_claims = (if isHighRisk then [] else []),
              extra_claims = (if isHighRisk then
                [''Claim #2024-0918-001 - Not found in ground truth'',
                 ''Claim #2024-0918-002 - Duplicate entry detected'',
                 ''Claim #2024-0919-001 - Suspicious timing pattern'']
                else []) \<rparr>,
            data_integrity = \<lparr>
              completeness_score = (if isHighRisk then Num 75 else Num 95),
              accuracy_score = (if isHighRisk then Num 68 else Num 92),
              consistency_score = (if isHighRisk then Num 72 else Num 88),
              reliability_rating =
                (if isHighRisk then LOW else if isMediumRisk then MEDIUM else HIGH) \<rparr> \<rparr>;
          validation_metrics = \<lparr>
            trust_score = (if isHighRisk then Num 45 else if isMediumRisk then Num 72 else Num 89),
            reliability_indicators = \<lparr>
              data_consistency =
                (if isHighRisk then Num 60 else if isMediumRisk then Num 75 else Num 90),
              cross_reference_accuracy =
                (if isHighRisk then Num 55 else if isMediumRisk then Num 78 else Num 88),
              financial_alignment =
                (if isHighRisk then Num 40 else if isMediumRisk then Num 70 else Num 92),
              temporal_consistency = matchPercentage \<rparr>,
            verification_status = \<lparr>
              dates_verified = js_gt matchPercentage (Num 80),
              amounts_verified = (\<not> risk_flag (cash_loss_limit financial_comparison)),
              commissions_verified = Commissions.match (commissions financial_comparison),
              claims_count_verified =
                TotalClaimsComparison.match (total_claims_comparison ground_truth_comparison) \<rparr> \<rparr>
      in \<lparr>
        overall_compliance_score =
          Some (if isHighRisk then Num 35 else if isMediumRisk then Num 65 else Num 85),
        overall_risk_level =
          Some (if isHighRisk then ''HIGH'' else if isMediumRisk then ''MEDIUM'' else ''LOW''),
        pairing_confidence =
          Some (if isHighRisk then Num 0.6 else if isMediumRisk then Num 0.75 else Num 0.9),
        statement_compliance = Some \<lparr>
          compliance_score =
            (if isHighRisk then Num 40 else if isMediumRisk then Num 70 else Num 88),
          risk_level = (if isHighRisk then ''HIGH'' else if isMediumRisk then ''MEDIUM'' else ''LOW''),
          risk_indicators = (if isHighRisk then
            [''Cash loss limit exceeded'',
             ''Commission discrepancies detected'',
             ''Date inconsistencies found'']
            else []),
          DocumentCompliance.ground_truth_analysis = \<lparr>
            matches_found = of_count statementGtMatches,
            DocumentGroundTruth.avg_similarity = (if isHighRisk then Num 0.65 else Num 0.85),
            DocumentGroundTruth.max_similarity = (if isHighRisk then Num 0.78 else Num 0.92) \<rparr> \<rparr>,
        treaty_slip_compliance = Some \<lparr>
          compliance_score =
            (if isHighRisk then Num 38 else if isMediumRisk then Num 68 else Num 86),
          risk_level = (if isHighRisk then ''HIGH'' else if isMediumRisk then ''MEDIUM'' else ''LOW''),
          risk_indicators = (if isHighRisk then
            [''Amount exceeds surplus limits'',
             ''Date discrepancies with ground truth'']
            else []),
          DocumentCompliance.ground_truth_analysis = \<lparr>
            matches_found = of_count treatyGtMatches,
            DocumentGroundTruth.avg_similarity = (if isHighRisk then Num 0.62 else Num 0.83),
            DocumentGroundTruth.max_similarity = (if isHighRisk then Num 0.75 else Num 0.90) \<rparr> \<rparr>,
        ground_truth_analysis = Some \<lparr>
          matches_count = of_count (min statementGtMatches treatyGtMatches),
          avg_similarity = (if isHighRisk then Num 0.63 else Num 0.84),
          max_similarity = (if isHighRisk then Num 0.76 else Num 0.91) \<rparr>,
        ComplianceAnalysis.date_comparison = Some date_comparison,
        ComplianceAnalysis.financial_comparison = Some financial_comparison,
        ComplianceAnalysis.ground_truth_comparison = Some ground_truth_comparison,
        ComplianceAnalysis.validation_metrics = Some validation_metrics \<rparr>)"

section \<open>Enhancing a report\<close>

text \<open>
  The \<open>Report\<close> interface. The type of the attachments is a parameter: no function here
  reads them. The field \<open>id\<close> is written \<open>id'\<close>.
\<close>

record 'att Report =
  id' :: string
  claim_id :: string
  timestamp :: string
  classification :: string
  summary :: string
  file_path :: string
  company :: string
  claim_amount :: "string option"
  claim_type :: string
  source :: string
  ground_truth_matches :: number
  report_text :: string
  attachments :: "'att list"
  fraud_indicators :: "string list"
  compliance_analysis :: "ComplianceAnalysis option"

text \<open>
  The optional second argument \<open>realComparisonData\<close> is an \<open>ApiResponse\<close>
  (\<open>status\<close>, \<open>data?\<close>, \<open>message?\<close>) whose \<open>data\<close> carries the four comparison
  records.
\<close>

record ComparisonData =
  date_comparison :: "DateComparison option"
  financial_comparison :: "FinancialComparison option"
  ground_truth_comparison :: "GroundTruthComparison option"
  validation_metrics :: "ValidationMetrics option"

record ApiResponse =
  status :: string
  data :: "ComparisonData option"
  message :: "string option"

datatype js_error = TypeError

text \<open>
  The object spread \<open>{...report.compliance_analysis, ...}\<close> starts from the keys of
  the analysis the report has; spreading \<open>undefined\<close> contributes no key.
\<close>

definition spread :: "ComplianceAnalysis option \<Rightarrow> ComplianceAnalysis" where
  "spread analysis =
     (case analysis of
        Some a \<Rightarrow> a
      | None \<Rightarrow> \<lparr>
          overall_compliance_score = None,
          overall_risk_level = None,
          pairing_confidence = None,
          statement_compliance = None,
          treaty_slip_compliance = None,
          ComplianceAnalysis.ground_truth_analysis = None,
          ComplianceAnalysis.date_comparison = None,
          ComplianceAnalysis.financial_comparison = None,
          ComplianceAnalysis.ground_truth_comparison = None,
          ComplianceAnalysis.validation_metrics = None \<rparr>)"

text \<open>
  \<open>enhanceReportWithComparison(report, realComparisonData?)\<close>. The source assigns to
  \<open>report.compliance_analysis\<close> in place and returns the same object; the model returns
  the updated record. Reading \<open>realData.date_comparison\<close> when \<open>data\<close> is absent throws
  a TypeError before anything is assigned. The report may carry further fields (the
  record's extension part).
\<close>

definition enhanceReportWithComparison ::
  "('att, 'more) Report_scheme \<Rightarrow> ApiResponse option \<Rightarrow>
   js_error + ('att, 'more) Report_scheme" where
  "enhanceReportWithComparison report realComparisonData =
     (if (case realComparisonData of None \<Rightarrow> False | Some r \<Rightarrow> status r = ''success'') then
        (case data (the realComparisonData) of
           None \<Rightarrow> Inl TypeError
         | Some realData \<Rightarrow>
             Inr (report\<lparr>compliance_analysis := Some
               ((spread (compliance_analysis report))\<lparr>
                  ComplianceAnalysis.date_comparison := ComparisonData.date_comparison realData,
                  ComplianceAnalysis.financial_comparison :=
                    ComparisonData.financial_comparison realData,
                  ComplianceAnalysis.ground_truth_comparison :=
                    ComparisonData.ground_truth_comparison realData,
                  ComplianceAnalysis.validation_metrics :=
                    ComparisonData.validation_metrics realData \<rparr>)\<rparr>))
      else
        (case compliance_analysis report of
           None \<Rightarrow>
             Inr (report\<lparr>compliance_analysis :=
               Some (generateMockComparisonData (id' report) (classification report))\<rparr>)
         | Some existing \<Rightarrow>
             (let mockData = generateMockComparisonData (id' report) (classification report)
              in Inr (report\<lparr>compliance_analysis := Some
                   (existing\<lparr>
                      ComplianceAnalysis.date_comparison :=
                        ComplianceAnalysis.date_comparison mockData,
                      ComplianceAnalysis.financial_comparison :=
                        ComplianceAnalysis.financial_comparison mockData,
                      ComplianceAnalysis.ground_truth_comparison :=
                        ComplianceAnalysis.ground_truth_comparison mockData,
                      ComplianceAnalysis.validation_metrics :=
                        ComplianceAnalysis.validation_metrics mockData \<rparr>)\<rparr>))))"

text \<open>A report of a valid claim that has no analysis yet, as the ticket feed passes it.\<close>

definition sample_report :: "unit Report" where
  "sample_report = \<lparr>
     id' = ''R-1'', claim_id = ''C-1'', timestamp = ''2024-09-15T10:00:00'',
     classification = ''VALID'', summary = ''Routine claim'', file_path = ''reports/R-1.txt'',
     company = ''Acme'', claim_amount = None, claim_type = ''Motor'', source = ''msg'',
     ground_truth_matches = Num 3, report_text = ''No anomalies'', attachments = [],
     fraud_indicators = [], compliance_analysis = None \<rparr>"

section \<open>The rules of the specification\<close>

text \<open>
  Two derivations that the specification words and that the generator is compared with.
  They are written from the specification, not from the source.

  The trust score of the specification's section 4.4:
  \<open>verification_count = count_true(the four booleans)\<close>,
  \<open>base_trust_score = (verification_count / 4) * 100\<close>,
  \<open>compliance_adjustment = statement_score * 0.3 + treaty_score * 0.3\<close>,
  \<open>trust_score = min(100, (base_trust_score + compliance_adjustment) / 1.6)\<close>.
\<close>

definition spec_trust_score :: "VerificationStatus \<Rightarrow> number \<Rightarrow> number \<Rightarrow> number" where
  "spec_trust_score vs statement_score treaty_score =
     (let verification_count = length (filter (\<lambda>b. b)
            [dates_verified vs, amounts_verified vs,
             commissions_verified vs, claims_count_verified vs]);
          base_trust_score = js_mul (js_div (of_count verification_count) (Num 4)) (Num 100);
          compliance_adjustment =
            js_add (js_mul statement_score (Num 0.3)) (js_mul treaty_score (Num 0.3))
      in js_min (Num 100) (js_div (js_add base_trust_score compliance_adjustment) (Num 1.6)))"

text \<open>
  The reliability rating of the specification's section 4.3: HIGH if the mean of the
  three scores is at least 90, MEDIUM if it is at least 70, else LOW.
\<close>

definition spec_reliability_rating :: "number \<Rightarrow> number \<Rightarrow> number \<Rightarrow> ReliabilityRating" where
  "spec_reliability_rating completeness accuracy consistency =
     (let mean = js_div (js_add (js_add completeness accuracy) consistency) (Num 3)
      in if js_ge mean (Num 90) then HIGH
         else if js_ge mean (Num 70) then MEDIUM
         else LOW)"

section \<open>What the generator returns\<close>

text \<open>
  The generator reads its classification through two string comparisons only, so each
  part of its result is a table over them. The lemmas below evaluate the parts once.
\<close>

lemmas generator_defs =
  generateMockComparisonData_def Let_def countMatches_def js_includes_def
  matchPercentageOf_def totalPossibleMatches_def of_count_def
  js_sub_def js_le_def js_gt_def

lemma generated_date_comparison:
  "ComplianceAnalysis.date_comparison (generateMockComparisonData reportId c) = Some \<lparr>
     statement_dates = [''2024-09-15'', ''2024-09-16'', ''2024-09-17''],
     treaty_slip_dates = [''2024-09-15'', ''2024-09-16'',
       if c = ''POTENTIALLY FRAUDULENT'' then ''2024-09-20'' else ''2024-09-17''],
     ground_truth_dates = [''2024-09-15'', ''2024-09-16'', ''2024-09-17''],
     matches = \<lparr>
       statement_gt_matches = Num 3,
       treaty_gt_matches = (if c = ''POTENTIALLY FRAUDULENT'' then Num 2 else Num 3),
       statement_treaty_matches = (if c = ''POTENTIALLY FRAUDULENT'' then Num 2 else Num 3) \<rparr>,
     discrepancies = (if c = ''POTENTIALLY FRAUDULENT'' then
       [''Treaty slip date 2024-09-20 not found in ground truth data'',
        ''Statement processing date differs from treaty slip by 3 days'']
       else []),
     match_percentage = (if c = ''POTENTIALLY FRAUDULENT'' then Num (700 / 9) else Num 100) \<rparr>"
  by (simp add: generator_defs)

lemma generated_financial_comparison:
  "ComplianceAnalysis.financial_comparison (generateMockComparisonData reportId c) = Some \<lparr>
     cash_loss_limit = \<lparr>
       treaty_slip_amount = (if c = ''POTENTIALLY FRAUDULENT'' then Num 2800000 else Num 1200000),
       statement_surplus_amount = Num 2500000,
       within_limits = (c \<noteq> ''POTENTIALLY FRAUDULENT''),
       CashLossLimit.variance_percentage =
         (if c = ''POTENTIALLY FRAUDULENT'' then Num 12 else Num 52),
       risk_flag = (c = ''POTENTIALLY FRAUDULENT'') \<rparr>,
     commissions = \<lparr>
       treaty_slip_commission = (if c = ''POTENTIALLY FRAUDULENT'' then Num 125000 else Num 120000),
       statement_commission = Num 120000,
       Commissions.match = (c \<noteq> ''POTENTIALLY FRAUDULENT''),
       variance_amount = (if c = ''POTENTIALLY FRAUDULENT'' then Num 5000 else Num 0),
       Commissions.variance_percentage =
         (if c = ''POTENTIALLY FRAUDULENT'' then Num (25 / 6) else Num 0) \<rparr>,
     claim_amounts = \<lparr>
       total_claims_statement = (if c = ''POTENTIALLY FRAUDULENT'' then Num 4200000 else Num 3800000),
       total_claims_ground_truth = Num 3800000,
       ClaimAmounts.variance = (if c = ''POTENTIALLY FRAUDULENT'' then Num 400000 else Num 0),
       ClaimAmounts.variance_percentage = (if c = ''POTENTIALLY FRAUDULENT'' then Num 10.5 else Num 0),
       suspicious_patterns = (if c = ''POTENTIALLY FRAUDULENT'' then
         [''Multiple claims submitted within 48 hours'',
          ''Claim amounts follow suspicious round number pattern'',
          ''Similar incident descriptions across multiple claims'']
         else []) \<rparr> \<rparr>"
  by (simp add: generator_defs)

lemma generated_ground_truth_comparison:
  "ComplianceAnalysis.ground_truth_comparison (generateMockComparisonData reportId c) = Some \<lparr>
     total_claims_comparison = \<lparr>
       statement_claims = (if c = ''POTENTIALLY FRAUDULENT'' then Num 15 else Num 12),
       ground_truth_claims = Num 12,
       TotalClaimsComparison.match = (c \<noteq> ''POTENTIALLY FRAUDULENT''),
       TotalClaimsComparison.variance = (if c = ''POTENTIALLY FRAUDULENT'' then Num 3 else Num 0),
       TotalClaimsComparison.variance_percentage =
         (if c = ''POTENTIALLY FRAUDULENT'' then Num 25 else Num 0),
       missing_claims = [],
       extra_claims = (if c = ''POTENTIALLY FRAUDULENT'' then
         [''Claim #2024-0918-001 - Not found in ground truth'',
          ''Claim #2024-0918-002 - Duplicate entry detected'',
          ''Claim #2024-0919-001 - Suspicious timing pattern'']
         else []) \<rparr>,
     data_integrity = \<lparr>
       completeness_score = (if c = ''POTENTIALLY FRAUDULENT'' then Num 75 else Num 95),
       accuracy_score = (if c = ''POTENTIALLY FRAUDULENT'' then Num 68 else Num 92),
       consistency_score = (if c = ''POTENTIALLY FRAUDULENT'' then Num 72 else Num 88),
       reliability_rating =
         (if c = ''POTENTIALLY FRAUDULENT'' then LOW
          else if c = ''INSUFFICIENT EVIDENCE'' then MEDIUM else HIGH) \<rparr> \<rparr>"
  by (simp add: generator_defs)

lemma generated_validation_metrics:
  "ComplianceAnalysis.validation_metrics (generateMockComparisonData reportId c) = Some \<lparr>
     trust_score =
       (if c = ''POTENTIALLY FRAUDULENT'' then Num 45
        else if c = ''INSUFFICIENT EVIDENCE'' then Num 72 else Num 89),
     reliability_indicators = \<lparr>
       data_consistency =
         (if c = ''POTENTIALLY FRAUDULENT'' then Num 60
          else if c = ''INSUFFICIENT EVIDENCE'' then Num 75 else Num 90),
       cross_reference_accuracy =
         (if c = ''POTENTIALLY FRAUDULENT'' then Num 55
          else if c = ''INSUFFICIENT EVIDENCE'' then Num 78 else Num 88),
       financial_alignment =
         (if c = ''POTENTIALLY FRAUDULENT'' then Num 40
          else if c = ''INSUFFICIENT EVIDENCE'' then Num 70 else Num 92),
       temporal_consistency = (if c = ''POTENTIALLY FRAUDULENT'' then Num (700 / 9) else Num 100) \<rparr>,
     verification_status = \<lparr>
       dates_verified = (c \<noteq> ''POTENTIALLY FRAUDULENT''),
       amounts_verified = (c \<noteq> ''POTENTIALLY FRAUDULENT''),
       commissions_verified = (c \<noteq> ''POTENTIALLY FRAUDULENT''),
       claims_count_verified = (c \<noteq> ''POTENTIALLY FRAUDULENT'') \<rparr> \<rparr>"
  by (simp add: generator_defs)

lemma generated_statement_compliance:
  "statement_compliance (generateMockComparisonData reportId c) = Some \<lparr>
     compliance_score =
       (if c = ''POTENTIALLY FRAUDULENT'' then Num 40
        else if c = ''INSUFFICIENT EVIDENCE'' then Num 70 else Num 88),
     risk_level =
       (if c = ''POTENTIALLY FRAUDULENT'' then ''HIGH''
        else if c = ''INSUFFICIENT EVIDENCE'' then ''MEDIUM'' else ''LOW''),
     risk_indicators = (if c = ''POTENTIALLY FRAUDULENT'' then
       [''Cash loss limit exceeded'',
        ''Commission discrepancies detected'',
        ''Date inconsistencies found'']
       else []),
     DocumentCompliance.ground_truth_analysis = \<lparr>
       matches_found = Num 3,
       DocumentGroundTruth.avg_similarity = (if c = ''POTENTIALLY FRAUDULENT'' then Num 0.65 else Num 0.85),
       DocumentGroundTruth.max_similarity = (if c = ''POTENTIALLY FRAUDULENT'' then Num 0.78 else Num 0.92) \<rparr> \<rparr>"
  by (simp add: generator_defs)

lemma generated_treaty_slip_compliance:
  "treaty_slip_compliance (generateMockComparisonData reportId c) = Some \<lparr>
     compliance_score =
       (if c = ''POTENTIALLY FRAUDULENT'' then Num 38
        else if c = ''INSUFFICIENT EVIDENCE'' then Num 68 else Num 86),
     risk_level =
       (if c = ''POTENTIALLY FRAUDULENT'' then ''HIGH''
        else if c = ''INSUFFICIENT EVIDENCE'' then ''MEDIUM'' else ''LOW''),
     risk_indicators = (if c = ''POTENTIALLY FRAUDULENT'' then
       [''Amount exceeds surplus limits'',
        ''Date discrepancies with ground truth'']
       else []),
     DocumentCompliance.ground_truth_analysis = \<lparr>
       matches_found = (if c = ''POTENTIALLY FRAUDULENT'' then Num 2 else Num 3),
       DocumentGroundTruth.avg_similarity = (if c = ''POTENTIALLY FRAUDULENT'' then Num 0.62 else Num 0.83),
       DocumentGroundTruth.max_similarity = (if c = ''POTENTIALLY FRAUDULENT'' then Num 0.75 else Num 0.90) \<rparr> \<rparr>"
  by (simp add: generator_defs)

text \<open>The tally behind each pairwise count: one for every entry of the first array that
  occurs in the second, however often it occurs there.\<close>

lemma countMatches_Nil: "countMatches [] ys = 0"
  by (simp add: countMatches_def)

lemma countMatches_tally:
  "countMatches xs ys = sum_list (map (\<lambda>d. if d \<in> set ys then 1 else 0) xs)"
  by (induction xs) (simp_all add: countMatches_def js_includes_def)

lemma countMatches_le_length: "countMatches xs ys \<le> length xs"
  by (simp add: countMatches_def)

text \<open>
  The three date arrays of the generator are literals of three entries each, so the
  denominator \<open>totalPossibleMatches * 3\<close> of line 32 is 9 in every call, and the stored
  percentage is the quotient of line 32 on the stored arrays.
\<close>

lemma generated_date_sets:
  "\<exists>dc. ComplianceAnalysis.date_comparison (generateMockComparisonData reportId c) = Some dc \<and>
     length (statement_dates dc) = 3 \<and>
     length (treaty_slip_dates dc) = 3 \<and>
     length (ground_truth_dates dc) = 3 \<and>
     totalPossibleMatches (statement_dates dc) (treaty_slip_dates dc) (ground_truth_dates dc) = 3 \<and>
     match_percentage dc =
       matchPercentageOf (statement_dates dc) (treaty_slip_dates dc) (ground_truth_dates dc)"
  by (simp add: generated_date_comparison matchPercentageOf_def totalPossibleMatches_def
      countMatches_def js_includes_def of_count_def)

text \<open>The specification's scenario 5, evaluated with the specification's own formula.\<close>

lemma spec_trust_score_scenario5:
  "spec_trust_score
     \<lparr>dates_verified = True, amounts_verified = True,
      commissions_verified = True, claims_count_verified = True\<rparr> (Num 88) (Num 83)
   = Num 94.5625"
  by (simp add: spec_trust_score_def of_count_def js_min_def)

text \<open>The helper returns a report unless a successful payload carries no data.\<close>

lemma enhanceReportWithComparison_returns:
  "(\<exists>e. enhanceReportWithComparison report realComparisonData = Inl e) \<longleftrightarrow>
     (\<exists>r. realComparisonData = Some r \<and> status r = ''success'' \<and> data r = None)"
  by (auto simp: enhanceReportWithComparison_def Let_def split: option.splits)

section \<open>The claims\<close>

text \<open>
  C1, as stated: the generated trust score equals
  \<open>min(100, (base_trust_score + compliance_adjustment) / 1.6)\<close> computed from the
  verification booleans and the two compliance scores of the same record. It fails for the
  classification \<open>VALID\<close>: all four booleans are true and the scores are 88 and 86, so
  the formula gives 95.125, and the record carries 89.
\<close>

theorem trust_score_formula_fails_for_valid:
  "ComplianceAnalysis.validation_metrics (generateMockComparisonData ''R-1'' ''VALID'') \<noteq> None \<and>
   statement_compliance (generateMockComparisonData ''R-1'' ''VALID'') \<noteq> None \<and>
   treaty_slip_compliance (generateMockComparisonData ''R-1'' ''VALID'') \<noteq> None \<and>
   trust_score (the (ComplianceAnalysis.validation_metrics
       (generateMockComparisonData ''R-1'' ''VALID''))) = Num 89 \<and>
   spec_trust_score
     (verification_status (the (ComplianceAnalysis.validation_metrics
        (generateMockComparisonData ''R-1'' ''VALID''))))
     (compliance_score (the (statement_compliance (generateMockComparisonData ''R-1'' ''VALID''))))
     (compliance_score (the (treaty_slip_compliance (generateMockComparisonData ''R-1'' ''VALID''))))
   = Num 95.125 \<and>
   trust_score (the (ComplianceAnalysis.validation_metrics
       (generateMockComparisonData ''R-1'' ''VALID''))) \<noteq>
   spec_trust_score
     (verification_status (the (ComplianceAnalysis.validation_metrics
        (generateMockComparisonData ''R-1'' ''VALID''))))
     (compliance_score (the (statement_compliance (generateMockComparisonData ''R-1'' ''VALID''))))
     (compliance_score (the (treaty_slip_compliance (generateMockComparisonData ''R-1'' ''VALID''))))"
  by (simp add: generated_validation_metrics generated_statement_compliance
      generated_treaty_slip_compliance spec_trust_score_def of_count_def js_min_def)

text \<open>
  C1, amended: for every report identifier and classification the generated trust score
  is a constant chosen by the classification (45 for \<open>POTENTIALLY FRAUDULENT\<close>, 72 for
  \<open>INSUFFICIENT EVIDENCE\<close>, 89 otherwise). It is not computed from the verification
  booleans and the compliance scores of the record: on them the formula gives 14.625,
  88.375 and 95.125, which differs from the stored score in every case.
\<close>

theorem trust_score_by_classification:
  "\<exists>vm sc tc.
     ComplianceAnalysis.validation_metrics (generateMockComparisonData reportId c) = Some vm \<and>
     statement_compliance (generateMockComparisonData reportId c) = Some sc \<and>
     treaty_slip_compliance (generateMockComparisonData reportId c) = Some tc \<and>
     trust_score vm =
       (if c = ''POTENTIALLY FRAUDULENT'' then Num 45
        else if c = ''INSUFFICIENT EVIDENCE'' then Num 72 else Num 89) \<and>
     spec_trust_score (verification_status vm) (compliance_score sc) (compliance_score tc) =
       (if c = ''POTENTIALLY FRAUDULENT'' then Num 14.625
        else if c = ''INSUFFICIENT EVIDENCE'' then Num 88.375 else Num 95.125) \<and>
     trust_score vm \<noteq>
       spec_trust_score (verification_status vm) (compliance_score sc) (compliance_score tc)"
  by (simp add: generated_validation_metrics generated_statement_compliance
      generated_treaty_slip_compliance spec_trust_score_def of_count_def js_min_def)

text \<open>
  C2, as stated: the reliability rating follows the mean of the three integrity scores. It
  fails for the classification \<open>POTENTIALLY FRAUDULENT\<close>: the scores 75, 68 and 72 have
  the mean 71.67, for which the rule says MEDIUM, and the record carries LOW.
\<close>

theorem reliability_rating_not_mean_rule:
  "ComplianceAnalysis.ground_truth_comparison
     (generateMockComparisonData ''R-1'' ''POTENTIALLY FRAUDULENT'') \<noteq> None \<and>
   reliability_rating (data_integrity (the (ComplianceAnalysis.ground_truth_comparison
     (generateMockComparisonData ''R-1'' ''POTENTIALLY FRAUDULENT'')))) = LOW \<and>
   spec_reliability_rating
     (completeness_score (data_integrity (the (ComplianceAnalysis.ground_truth_comparison
        (generateMockComparisonData ''R-1'' ''POTENTIALLY FRAUDULENT'')))))
     (accuracy_score (data_integrity (the (ComplianceAnalysis.ground_truth_comparison
        (generateMockComparisonData ''R-1'' ''POTENTIALLY FRAUDULENT'')))))
     (consistency_score (data_integrity (the (ComplianceAnalysis.ground_truth_comparison
        (generateMockComparisonData ''R-1'' ''POTENTIALLY FRAUDULENT''))))) = MEDIUM"
  by (simp add: generated_ground_truth_comparison spec_reliability_rating_def js_ge_def)

text \<open>
  C2, amended: the reliability rating is chosen by the classification alone: LOW for
  \<open>POTENTIALLY FRAUDULENT\<close>, MEDIUM for \<open>INSUFFICIENT EVIDENCE\<close>, HIGH otherwise. The
  mean rule applied to the three scores of the same record gives MEDIUM, HIGH and HIGH, so
  the two agree exactly for the classifications that are neither of the two named ones.
\<close>

theorem reliability_rating_by_classification:
  "\<exists>gc. ComplianceAnalysis.ground_truth_comparison (generateMockComparisonData reportId c) = Some gc \<and>
     reliability_rating (data_integrity gc) =
       (if c = ''POTENTIALLY FRAUDULENT'' then LOW
        else if c = ''INSUFFICIENT EVIDENCE'' then MEDIUM else HIGH) \<and>
     spec_reliability_rating (completeness_score (data_integrity gc))
        (accuracy_score (data_integrity gc)) (consistency_score (data_integrity gc)) =
       (if c = ''POTENTIALLY FRAUDULENT'' then MEDIUM else HIGH) \<and>
     ((reliability_rating (data_integrity gc) =
        spec_reliability_rating (completeness_score (data_integrity gc))
          (accuracy_score (data_integrity gc)) (consistency_score (data_integrity gc)))
      = (c \<noteq> ''POTENTIALLY FRAUDULENT'' \<and> c \<noteq> ''INSUFFICIENT EVIDENCE''))"
  by (simp add: generated_ground_truth_comparison spec_reliability_rating_def js_ge_def)

text \<open>
  C4, as stated: the cash-loss variance percentage is the signed quotient, negative when
  the treaty amount is below the surplus. It fails for the classification \<open>VALID\<close>: the
  treaty amount 1,200,000 is below the surplus 2,500,000, the signed quotient is -52, and
  the record carries 52, which is not negative.
\<close>

theorem cash_loss_variance_not_signed:
  "ComplianceAnalysis.financial_comparison (generateMockComparisonData ''R-1'' ''VALID'') \<noteq> None \<and>
   treaty_slip_amount (cash_loss_limit (the (ComplianceAnalysis.financial_comparison
     (generateMockComparisonData ''R-1'' ''VALID'')))) = Num 1200000 \<and>
   statement_surplus_amount (cash_loss_limit (the (ComplianceAnalysis.financial_comparison
     (generateMockComparisonData ''R-1'' ''VALID'')))) = Num 2500000 \<and>
   js_mul (js_div (js_sub (Num 1200000) (Num 2500000)) (Num 2500000)) (Num 100) = Num (- 52) \<and>
   CashLossLimit.variance_percentage (cash_loss_limit (the (ComplianceAnalysis.financial_comparison
     (generateMockComparisonData ''R-1'' ''VALID'')))) = Num 52 \<and>
   \<not> js_lt (CashLossLimit.variance_percentage (cash_loss_limit
     (the (ComplianceAnalysis.financial_comparison
       (generateMockComparisonData ''R-1'' ''VALID''))))) (Num 0)"
  by (simp add: generated_financial_comparison js_sub_def)

text \<open>
  C4, amended: for every generated cash-loss check the surplus is positive and the
  variance percentage is the absolute value of
  \<open>(treaty_slip_amount - statement_surplus_amount) / statement_surplus_amount * 100\<close>;
  it is never negative.
\<close>

theorem cash_loss_variance_is_absolute:
  "\<exists>fc. ComplianceAnalysis.financial_comparison (generateMockComparisonData reportId c) = Some fc \<and>
     js_lt (Num 0) (statement_surplus_amount (cash_loss_limit fc)) \<and>
     CashLossLimit.variance_percentage (cash_loss_limit fc) =
       js_abs (js_mul
         (js_div (js_sub (treaty_slip_amount (cash_loss_limit fc))
                         (statement_surplus_amount (cash_loss_limit fc)))
                 (statement_surplus_amount (cash_loss_limit fc)))
         (Num 100)) \<and>
     \<not> js_lt (CashLossLimit.variance_percentage (cash_loss_limit fc)) (Num 0)"
  by (simp add: generated_financial_comparison js_sub_def)

text \<open>
  C5, as stated: treaty commission 125,000 against statement commission 120,000 yields
  a match. These are the commissions of the classification \<open>POTENTIALLY FRAUDULENT\<close>,
  and the generated check says no match: the difference 5000 is not below 5000.
\<close>

theorem commission_difference_5000_is_no_match:
  "ComplianceAnalysis.financial_comparison
     (generateMockComparisonData ''R-1'' ''POTENTIALLY FRAUDULENT'') \<noteq> None \<and>
   treaty_slip_commission (commissions (the (ComplianceAnalysis.financial_comparison
     (generateMockComparisonData ''R-1'' ''POTENTIALLY FRAUDULENT'')))) = Num 125000 \<and>
   statement_commission (commissions (the (ComplianceAnalysis.financial_comparison
     (generateMockComparisonData ''R-1'' ''POTENTIALLY FRAUDULENT'')))) = Num 120000 \<and>
   Commissions.match (commissions (the (ComplianceAnalysis.financial_comparison
     (generateMockComparisonData ''R-1'' ''POTENTIALLY FRAUDULENT'')))) = False"
  by (simp add: generated_financial_comparison)

text \<open>
  C5, amended: for treaty commission 125,000 and statement commission 120,000 (the
  classification \<open>POTENTIALLY FRAUDULENT\<close>) the commission check yields match = false,
  by the strict comparison of the absolute variance amount with 5000, variance amount
  5000 and variance percentage 5000 / 120000 * 100, which is 4.17 to two decimals.
\<close>

theorem commission_check_at_boundary:
  "\<exists>fc. ComplianceAnalysis.financial_comparison
          (generateMockComparisonData reportId ''POTENTIALLY FRAUDULENT'') = Some fc \<and>
     treaty_slip_commission (commissions fc) = Num 125000 \<and>
     statement_commission (commissions fc) = Num 120000 \<and>
     Commissions.match (commissions fc) =
       js_lt (js_abs (variance_amount (commissions fc))) (Num 5000) \<and>
     Commissions.match (commissions fc) = False \<and>
     variance_amount (commissions fc) = Num 5000 \<and>
     Commissions.variance_percentage (commissions fc) = Num (5000 / 120000 * 100) \<and>
     \<bar>5000 / 120000 * 100 - 4.17\<bar> < (0.005 :: real)"
  by (simp add: generated_financial_comparison)

text \<open>
  C6: the three date sets of the scenario are those the generator uses for the
  classification \<open>POTENTIALLY FRAUDULENT\<close>. The comparison yields the pairwise counts 3,
  2 and 2, the maximum length 3 and the match percentage \<open>(3+2+2)/(3*3)*100\<close>, which
  is 77.78 to two decimals. Each count is the tally over the entries of the first set of
  whether the entry occurs in the second set: an entry counts once however often the
  second set holds it, and a repeated entry of the first set counts each time.
\<close>

theorem date_comparison_scenario:
  "\<exists>dc. ComplianceAnalysis.date_comparison
          (generateMockComparisonData reportId ''POTENTIALLY FRAUDULENT'') = Some dc \<and>
     statement_dates dc = [''2024-09-15'', ''2024-09-16'', ''2024-09-17''] \<and>
     treaty_slip_dates dc = [''2024-09-15'', ''2024-09-16'', ''2024-09-20''] \<and>
     ground_truth_dates dc = [''2024-09-15'', ''2024-09-16'', ''2024-09-17''] \<and>
     statement_gt_matches (matches dc) = Num 3 \<and>
     treaty_gt_matches (matches dc) = Num 2 \<and>
     statement_treaty_matches (matches dc) = Num 2 \<and>
     totalPossibleMatches (statement_dates dc) (treaty_slip_dates dc) (ground_truth_dates dc) = 3 \<and>
     match_percentage dc = Num ((3 + 2 + 2) / (3 * 3) * 100) \<and>
     \<bar>(3 + 2 + 2) / (3 * 3) * 100 - 77.78\<bar> < (0.005 :: real) \<and>
     statement_gt_matches (matches dc) =
       of_count (countMatches (statement_dates dc) (ground_truth_dates dc)) \<and>
     treaty_gt_matches (matches dc) =
       of_count (countMatches (treaty_slip_dates dc) (ground_truth_dates dc)) \<and>
     statement_treaty_matches (matches dc) =
       of_count (countMatches (statement_dates dc) (treaty_slip_dates dc)) \<and>
     countMatches xs ys = sum_list (map (\<lambda>d. if d \<in> set ys then 1 else 0) xs)"
  by (simp add: generated_date_comparison totalPossibleMatches_def of_count_def
      countMatches_tally)

text \<open>
  C7: in every generated cash-loss check, \<open>within_limits\<close> is the inclusive comparison
  \<open>treaty_slip_amount <= statement_surplus_amount\<close> of the record's own amounts, and
  \<open>risk_flag\<close> is its negation.
\<close>

theorem cash_loss_within_limits_and_risk_flag:
  "\<exists>fc. ComplianceAnalysis.financial_comparison (generateMockComparisonData reportId c) = Some fc \<and>
     within_limits (cash_loss_limit fc) =
       js_le (treaty_slip_amount (cash_loss_limit fc)) (statement_surplus_amount (cash_loss_limit fc)) \<and>
     risk_flag (cash_loss_limit fc) = (\<not> within_limits (cash_loss_limit fc))"
  by (simp add: generated_financial_comparison js_le_def)

text \<open>
  C8: in every generated analysis the four verification booleans are derived from the
  comparison records of the same analysis: \<open>dates_verified\<close> is
  \<open>match_percentage > 80\<close>, \<open>amounts_verified\<close> is the cash-loss \<open>within_limits\<close>,
  \<open>commissions_verified\<close> is the commission \<open>match\<close> and \<open>claims_count_verified\<close> is
  the claims-count \<open>match\<close>.
\<close>

theorem verification_status_derived:
  "\<exists>dc fc gc vm.
     ComplianceAnalysis.date_comparison (generateMockComparisonData reportId c) = Some dc \<and>
     ComplianceAnalysis.financial_comparison (generateMockComparisonData reportId c) = Some fc \<and>
     ComplianceAnalysis.ground_truth_comparison (generateMockComparisonData reportId c) = Some gc \<and>
     ComplianceAnalysis.validation_metrics (generateMockComparisonData reportId c) = Some vm \<and>
     dates_verified (verification_status vm) = js_gt (match_percentage dc) (Num 80) \<and>
     amounts_verified (verification_status vm) = within_limits (cash_loss_limit fc) \<and>
     commissions_verified (verification_status vm) = Commissions.match (commissions fc) \<and>
     claims_count_verified (verification_status vm) =
       TotalClaimsComparison.match (total_claims_comparison gc)"
  by (simp add: generated_date_comparison generated_financial_comparison
      generated_ground_truth_comparison generated_validation_metrics js_gt_def)

text \<open>
  C9: the generated analysis does not depend on the report identifier: for every
  classification, two calls with different identifiers return the same analysis.
\<close>

theorem generateMockComparisonData_ignores_reportId:
  "generateMockComparisonData reportId1 c = generateMockComparisonData reportId2 c"
  unfolding generateMockComparisonData_def by (rule refl)

text \<open>
  C10: whenever \<open>enhanceReportWithComparison\<close> returns a report, for any input report
  and any payload, present or absent, the returned report is the input report with at most
  its \<open>compliance_analysis\<close> replaced: every other field, those of the extension part
  included, is unchanged.
\<close>

theorem enhanceReportWithComparison_frame:
  "enhanceReportWithComparison report realComparisonData = Inr report' \<Longrightarrow>
   report' = report\<lparr>compliance_analysis := compliance_analysis report'\<rparr>"
  by (auto simp: enhanceReportWithComparison_def Let_def split: if_splits option.splits)

text \<open>
  C10 at the sample report with no payload: the helper returns the report with the mock
  analysis of its classification, and that report differs from the sample in
  \<open>compliance_analysis\<close> only.
\<close>

theorem enhanceReportWithComparison_frame_witness:
  "enhanceReportWithComparison sample_report None =
     Inr (sample_report\<lparr>compliance_analysis :=
            Some (generateMockComparisonData ''R-1'' ''VALID'')\<rparr>) \<and>
   sample_report\<lparr>compliance_analysis := Some (generateMockComparisonData ''R-1'' ''VALID'')\<rparr> =
     sample_report\<lparr>compliance_analysis :=
       compliance_analysis
         (sample_report\<lparr>compliance_analysis :=
            Some (generateMockComparisonData ''R-1'' ''VALID'')\<rparr>)\<rparr>"
proof -
  have returned: "enhanceReportWithComparison sample_report None =
     Inr (sample_report\<lparr>compliance_analysis :=
            Some (generateMockComparisonData ''R-1'' ''VALID'')\<rparr>)"
    by (simp add: enhanceReportWithComparison_def sample_report_def)
  from returned enhanceReportWithComparison_frame [OF returned] show ?thesis
    by (rule conjI)
qed

end
